theory Spec2Isabelle
  imports Main
begin

section \<open>Python strings: \<open>str.find\<close>, slicing, \<open>str.join\<close>\<close>

text \<open>
  Manual pages and paths are Python strings; they are modelled as \<open>string\<close> over
  ASCII. Two characters have no plain literal and get a name.
\<close>

abbreviation newline :: char where
  "newline \<equiv> CHR 0x0A"

abbreviation backslash :: char where
  "backslash \<equiv> CHR 0x5C"

fun startswith :: "string \<Rightarrow> string \<Rightarrow> bool" where
  "startswith s [] = True"
| "startswith [] (p # ps) = False"
| "startswith (c # cs) (p # ps) = (c = p \<and> startswith cs ps)"

text \<open>\<open>s.find(sub)\<close>: the lowest index where \<open>sub\<close> starts, or \<open>-1\<close>.\<close>

fun str_find :: "string \<Rightarrow> string \<Rightarrow> int" where
  "str_find [] sub = (if sub = [] then 0 else - 1)"
| "str_find (c # cs) sub =
     (if startswith (c # cs) sub then 0
      else (let k = str_find cs sub in if k < 0 then - 1 else k + 1))"

text \<open>
  A slice bound of Python: a negative bound counts from the end, and every bound is
  clamped into \<open>0..len(s)\<close>.
\<close>

definition slice_bound :: "nat \<Rightarrow> int \<Rightarrow> nat" where
  "slice_bound n i = (if i < 0 then nat (max 0 (int n + i)) else min n (nat i))"

text \<open>\<open>s[a:]\<close> and \<open>s[a:b]\<close>.\<close>

definition slice_from :: "string \<Rightarrow> int \<Rightarrow> string" where
  "slice_from s a = drop (slice_bound (length s) a) s"

definition slice :: "string \<Rightarrow> int \<Rightarrow> int \<Rightarrow> string" where
  "slice s a b =
     (let lo = slice_bound (length s) a; hi = slice_bound (length s) b
      in take (hi - lo) (drop lo s))"

text \<open>\<open>sep.join(xs)\<close>.\<close>

fun join :: "string \<Rightarrow> string list \<Rightarrow> string" where
  "join sep [] = []"
| "join sep [x] = x"
| "join sep (x # y # ys) = x @ sep @ join sep (y # ys)"

section \<open>The two regular expressions of the manual parser\<close>

text \<open>
  \<open>re.findall\<close> is used with two patterns of one shape: single-character items
  followed by one capturing group \<open>[...]+\<close> and more single-character items. The
  pattern language below has exactly these items. \<open>Dot\<close> is \<open>.\<close> (any character but
  a newline), \<open>Lit c\<close> the character \<open>c\<close>, \<open>Group cls\<close> the group \<open>([cls]+)\<close>.
\<close>

datatype rx = Dot | Lit char | Group "char \<Rightarrow> bool"

text \<open>
  The longest candidate first: a greedy \<open>+\<close> takes as many characters as it can and
  gives them back one at a time while the rest of the pattern fails.
\<close>

fun first_some :: "'a option list \<Rightarrow> 'a option" where
  "first_some [] = None"
| "first_some (None # xs) = first_some xs"
| "first_some (Some x # xs) = Some x"

text \<open>
  \<open>rx_match r g s\<close> matches the pattern \<open>r\<close> at the start of \<open>s\<close>; \<open>g\<close> is the text
  captured so far. The result is the captured group and the unread rest of \<open>s\<close>.
\<close>

fun rx_match :: "rx list \<Rightarrow> string \<Rightarrow> string \<Rightarrow> (string \<times> string) option" where
  "rx_match [] g s = Some (g, s)"
| "rx_match (Dot # r) g [] = None"
| "rx_match (Dot # r) g (c # cs) = (if c = newline then None else rx_match r g cs)"
| "rx_match (Lit a # r) g [] = None"
| "rx_match (Lit a # r) g (c # cs) = (if c = a then rx_match r g cs else None)"
| "rx_match (Group cls # r) g s =
     first_some (map (\<lambda>n. rx_match r (take n s) (drop n s))
                     (rev [1 ..< Suc (length (takeWhile cls s))]))"

text \<open>
  \<open>re.findall(r, s)\<close> for a pattern with one group: scan from the left; where the
  pattern matches, keep the group and go on behind the match; elsewhere move one
  character on. (A match that reads nothing also moves one character on.)
\<close>

function findall :: "rx list \<Rightarrow> string \<Rightarrow> string list" where
  "findall r [] = (case rx_match r [] [] of Some (g, rest) \<Rightarrow> [g] | None \<Rightarrow> [])"
| "findall r (c # cs) =
     (case rx_match r [] (c # cs) of
        None \<Rightarrow> findall r cs
      | Some (g, rest) \<Rightarrow>
          g # (if length rest < length (c # cs) then findall r rest else findall r cs))"
  by pat_completeness auto
termination
  by (relation "measure (\<lambda>(r, s). length s)") auto

text \<open>\<open>\w\<close> on ASCII text: letters, digits and the underscore.\<close>

definition word_char :: "char \<Rightarrow> bool" where
  "word_char c =
     (c \<in> set ''abcdefghijklmnopqrstuvwxyzABCDEFGHIJKLMNOPQRSTUVWXYZ0123456789_'')"

text \<open>
  \<^verbatim>\<open>r".sp\n\\fB([\w|-]+)\\fP"\<close>: the class holds the word characters, \<open>|\<close> and
  \<open>-\<close>.
\<close>

definition sub_command_regex :: "rx list" where
  "sub_command_regex =
     [Dot, Lit CHR ''s'', Lit CHR ''p'', Lit newline, Lit backslash, Lit CHR ''f'',
      Lit CHR ''B'',
      Group (\<lambda>c. word_char c \<or> c = CHR ''|'' \<or> c = CHR ''-''),
      Lit backslash, Lit CHR ''f'', Lit CHR ''P'']"

text \<open>
  \<^verbatim>\<open>r".sp\n\\fB([A-Z|-|_]+)\\fP"\<close>: inside the class, \<open>|-|\<close> is the range from
  \<open>|\<close> to \<open>|\<close>, so the class holds the capital letters, \<open>|\<close> and \<open>_\<close>.
\<close>

definition environment_variable_regex :: "rx list" where
  "environment_variable_regex =
     [Dot, Lit CHR ''s'', Lit CHR ''p'', Lit newline, Lit backslash, Lit CHR ''f'',
      Lit CHR ''B'',
      Group (\<lambda>c. c \<in> set ''ABCDEFGHIJKLMNOPQRSTUVWXYZ'' \<or> c = CHR ''|'' \<or> c = CHR ''_''),
      Lit backslash, Lit CHR ''f'', Lit CHR ''P'']"

section \<open>Paths and the filesystem\<close>

text \<open>
  A \<open>pathlib.Path\<close> is its tuple of parts: \<open>[''/'', ''opt'', ''modules'']\<close> for
  \<open>/opt/modules\<close>. The first part of an absolute path is its root: \<open>''/''\<close>, or
  \<open>''//''\<close> when the string starts with exactly two slashes. Empty parts and \<open>.\<close>
  parts are dropped by the constructor; \<open>..\<close> parts are kept.
\<close>

type_synonym path = "string list"

fun split_slash :: "string \<Rightarrow> string \<Rightarrow> string list" where
  "split_slash acc [] = [rev acc]"
| "split_slash acc (c # cs) =
     (if c = CHR ''/'' then rev acc # split_slash [] cs else split_slash (c # acc) cs)"

definition Path :: "string \<Rightarrow> path" where
  "Path s =
     (if startswith s ''//'' \<and> \<not> startswith s ''///'' then [''//'']
      else if startswith s ''/'' then [''/'']
      else []) @
     filter (\<lambda>part. part \<noteq> [] \<and> part \<noteq> ''.'') (split_slash [] s)"

text \<open>\<open>str(p)\<close> of a path.\<close>

definition str_path :: "path \<Rightarrow> string" where
  "str_path p =
     (case p of
        [] \<Rightarrow> ''.''
      | part # parts \<Rightarrow>
          if part = ''/'' \<or> part = ''//'' then part @ join ''/'' parts else join ''/'' p)"

text \<open>\<open>os.path.join(a, b1, ..., bn)\<close> for components \<open>b\<close> that are relative.\<close>

fun os_path_join :: "string \<Rightarrow> string list \<Rightarrow> string" where
  "os_path_join a [] = a"
| "os_path_join a (b # bs) =
     os_path_join (if a = [] \<or> last a = CHR ''/'' then a @ b else a @ ''/'' @ b) bs"

text \<open>
  The filesystem is a tree of directories and text files, read-only for the bridge;
  it has no links. The working directory is the root, so a relative path and the
  absolute path with the same parts name the same node, and so does the path with
  the root \<open>//\<close>.
\<close>

datatype node = File string | Dir "(string \<times> node) list"

fun lookup :: "path \<Rightarrow> node \<Rightarrow> node option" where
  "lookup [] n = Some n"
| "lookup (part # parts) n =
     (case n of
        File text \<Rightarrow> None
      | Dir entries \<Rightarrow>
          (case map_of entries part of None \<Rightarrow> None | Some n' \<Rightarrow> lookup parts n'))"

text \<open>
  Path resolution as the system does it, from the directory \<open>here\<close> (its names from
  the root, innermost first): a part is looked up in a directory only, and \<open>..\<close> is
  the parent directory (of the root, the root).
\<close>

fun walk :: "node \<Rightarrow> string list \<Rightarrow> path \<Rightarrow> node option" where
  "walk root here [] = lookup (rev here) root"
| "walk root here (part # parts) =
     (case lookup (rev here) root of
        Some (Dir entries) \<Rightarrow>
          (if part = ''..'' then walk root (tl here) parts
           else (case map_of entries part of
                   None \<Rightarrow> None
                 | Some n \<Rightarrow> walk root (part # here) parts))
      | _ \<Rightarrow> None)"

definition resolve :: "node \<Rightarrow> path \<Rightarrow> node option" where
  "resolve root p =
     (case p of
        [] \<Rightarrow> Some root
      | part # parts \<Rightarrow>
          if part = ''/'' \<or> part = ''//'' then walk root [] parts else walk root [] p)"

text \<open>\<open>fnmatch(name, "*python*.py")\<close>.\<close>

definition fnmatch_python_py :: "string \<Rightarrow> bool" where
  "fnmatch_python_py name =
     (3 \<le> length name \<and> drop (length name - 3) name = ''.py'' \<and>
      0 \<le> str_find (take (length name - 3) name) ''python'')"

text \<open>
  What \<open>**\<close> matches below a node: the node itself when it is a directory, and every
  directory beneath it, each as its path relative to the node.
\<close>

fun directories :: "node \<Rightarrow> path \<Rightarrow> path list" where
  "directories (File text) rel = []"
| "directories (Dir entries) rel =
     rel # concat (map (\<lambda>e. directories (snd e) (rel @ [fst e])) entries)"

text \<open>
  \<open>home.glob("**/init/*python*.py")\<close>: for every directory \<open>d\<close> that \<open>**\<close> matches,
  the entries of \<open>d/init\<close> whose name matches \<open>*python*.py\<close>.
\<close>

definition glob_init :: "node \<Rightarrow> path \<Rightarrow> path list" where
  "glob_init root home =
     (case resolve root home of
        None \<Rightarrow> []
      | Some home_node \<Rightarrow>
          concat (map (\<lambda>d. case lookup (d @ [''init'']) home_node of
                              Some (Dir entries) \<Rightarrow>
                                map (\<lambda>name. home @ d @ [''init'', name])
                                    (filter fnmatch_python_py (map fst entries))
                            | _ \<Rightarrow> [])
                      (directories home_node [])))"

section \<open>Values, errors and the process state\<close>

text \<open>The arguments a caller passes to a sub-command, and what the dispatcher returns.\<close>

datatype pyval = PNone | PBool bool | PInt int | PStr string | PList "pyval list"

type_synonym kwargs = "(string \<times> pyval) list"

text \<open>
  The exceptions of \<open>core.py\<close>, each with its message. \<open>OSError\<close> stands for what
  \<open>open\<close> raises on a name it cannot read (\<open>FileNotFoundError\<close>,
  \<open>IsADirectoryError\<close>, \<open>NotADirectoryError\<close>); \<open>TypeError\<close> is raised by
  Python itself when an object that is not callable is called; \<open>Raised\<close> is any
  exception of foreign code (the init script, the dispatcher). \<open>Shadowed\<close> is not an
  exception: it marks a run that is outside the model, see \<open>fetch_module\<close>.
\<close>

datatype error =
    ValueError string
  | FileNotFoundError string
  | EnvironmentError string
  | AttributeError string
  | TypeError string
  | RecursionError
  | OSError string
  | Raised string
  | Shadowed string

type_synonym env = "string \<rightharpoonup> string"

text \<open>
  The dispatcher is the function \<open>module\<close> that the init script defines. It is foreign
  code: it gets the positional and keyword arguments, may change the process
  environment, and returns a value or raises.
\<close>

type_synonym dispatcher = "pyval list \<Rightarrow> kwargs \<Rightarrow> env \<Rightarrow> (error + pyval) \<times> env"

text \<open>
  What a name can be bound to in the globals: a function, or an object that is not
  callable.
\<close>

datatype pyobj = Fn dispatcher | Obj pyval

definition type_name :: "pyval \<Rightarrow> string" where
  "type_name v =
     (case v of
        PNone \<Rightarrow> ''NoneType''
      | PBool b \<Rightarrow> ''bool''
      | PInt i \<Rightarrow> ''int''
      | PStr s \<Rightarrow> ''str''
      | PList vs \<Rightarrow> ''list'')"

text \<open>
  One access of the bridge to the filesystem: \<open>Path.exists\<close> and \<open>Path.glob\<close> on a
  path, \<open>open\<close> on the name it is given.
\<close>

datatype fs_op = Exists path | Glob path | Open string

text \<open>
  The state the bridge runs in: \<open>os.environ\<close>, the filesystem, the bindings that init
  scripts have made in the module globals of \<open>core.py\<close> (the shared context; it
  outlives every instance of the process), and two histories that the code itself
  does not hold: every filesystem access and every call of a dispatcher, oldest
  first. The names that \<open>core.py\<close> reads before a script runs (its imports, \<open>open\<close>,
  \<open>exec\<close>, the exception classes) are taken to mean what they mean in \<open>core.py\<close>.
\<close>

record world =
  os_environ :: env
  fs :: node
  globals :: "string \<rightharpoonup> pyobj"
  fs_log :: "fs_op list"
  calls :: "(pyval list \<times> kwargs) list"

text \<open>
  \<open>exec(source, globals())\<close> is the Python interpreter, a parameter of the model: from
  the source text, the environment and the globals it gives the exception raised (if
  any), and the environment and the globals afterwards.
\<close>

type_synonym interpreter =
  "string \<Rightarrow> env \<Rightarrow> (string \<rightharpoonup> pyobj) \<Rightarrow> error option \<times> env \<times> (string \<rightharpoonup> pyobj)"

definition path_exists :: "path \<Rightarrow> world \<Rightarrow> bool \<times> world" where
  "path_exists p w = (resolve (fs w) p \<noteq> None, w\<lparr>fs_log := fs_log w @ [Exists p]\<rparr>)"

definition path_glob :: "path \<Rightarrow> world \<Rightarrow> path list \<times> world" where
  "path_glob home w = (glob_init (fs w) home, w\<lparr>fs_log := fs_log w @ [Glob home]\<rparr>)"

text \<open>
  \<open>open(name, "r")\<close> followed by \<open>f.read()\<close>. The name is a string, taken as it is
  given. A name that ends in a slash or in a \<open>.\<close> part (and the empty name) cannot
  name a file; any other name names what its parts resolve to.
\<close>

definition names_directory :: "string \<Rightarrow> bool" where
  "names_directory name =
     (last (split_slash [] name) = [] \<or> last (split_slash [] name) = ''.'')"

definition open_read :: "string \<Rightarrow> world \<Rightarrow> (error + string) \<times> world" where
  "open_read name w =
     (if names_directory name then Inl (OSError name)
      else (case resolve (fs w) (Path name) of
              Some (File text) \<Rightarrow> Inr text
            | _ \<Rightarrow> Inl (OSError name)),
      w\<lparr>fs_log := fs_log w @ [Open name]\<rparr>)"

text \<open>A call of a dispatcher: it runs on the current environment and is recorded.\<close>

definition invoke :: "dispatcher \<Rightarrow> pyval list \<Rightarrow> kwargs \<Rightarrow> world \<Rightarrow> (error + pyval) \<times> world" where
  "invoke d args kw w =
     (fst (d args kw (os_environ w)),
      w\<lparr>os_environ := snd (d args kw (os_environ w)), calls := calls w @ [(args, kw)]\<rparr>)"

section \<open>The class \<open>Module\<close>\<close>

text \<open>
  The attributes of an instance. \<open>init_file\<close> and \<open>module\<close> are set during
  construction and are \<open>None\<close> until then. \<open>sub_commands\<close> and
  \<open>envinronment_variables\<close> (spelt as in the source) start as the class attributes.
\<close>

record Module =
  modules_home :: path
  init_file :: "path option"
  module :: "pyobj option"
  sub_commands :: "string list"
  envinronment_variables :: "string list"

definition default_sub_commands :: "string list" where
  "default_sub_commands =
     [''help'', ''add'', ''load'', ''rm'', ''unload'', ''swap'', ''switch'', ''show'',
      ''display'', ''list'', ''avail'', ''aliases'', ''use'', ''unuse'', ''refresh'',
      ''reload'', ''purge'', ''clear'', ''source'', ''whatis'', ''apropos'', ''keyword'',
      ''search'', ''test'', ''save'', ''restore'', ''saverm'', ''saveshow'', ''savelist'',
      ''initadd'', ''initprepend'', ''initrm'', ''initswitch'', ''initlist'',
      ''initclear'', ''path'', ''paths'', ''config'']"

definition default_envinronment_variables :: "string list" where
  "default_envinronment_variables =
     [''LOADEDMODULES'', ''MODULECONTACT'', ''MODULEPATH'', ''MODULERCFILE'',
      ''MODULESHOME'', ''MODULES_AUTO_HANDLING'', ''MODULES_AVAIL_INDEPTH'',
      ''MODULES_CMD'', ''MODULES_COLLECTION_PIN_VERSION'', ''MODULES_COLLECTION_TARGET'',
      ''MODULES_COLOR'', ''CLICOLOR'', ''MODULES_COLORS'', ''MODULES_IMPLICIT_DEFAULT'',
      ''MODULES_LMALTNAME'', ''MODULES_LMCONFLICT'', ''MODULES_LMNOTUASKED'',
      ''MODULES_LMPREREQ'', ''MODULES_PAGER'', ''MODULES_RUN_QUARANTINE'',
      ''MODULES_SEARCH_MATCH'', ''MODULES_SET_SHELL_STARTUP'',
      ''MODULES_SILENT_SHELL_DEBUG'', ''MODULES_SITECONFIG'', ''MODULES_TERM_BACKGROUND'',
      ''MODULES_UNLOAD_MATCH_ORDER'', ''MODULES_USE_COMPAT_VERSION'', ''MODULES_VERBOSITY'',
      ''_LMFILES_'']"

text \<open>The object as \<open>__init__\<close> has it once \<open>modules_home\<close> is assigned.\<close>

definition new_Module :: "path \<Rightarrow> Module" where
  "new_Module home =
     \<lparr>modules_home = home, init_file = None, module = None,
      sub_commands = default_sub_commands,
      envinronment_variables = default_envinronment_variables\<rparr>"

subsection \<open>\<open>set_init_file\<close>\<close>

text \<open>
  The method assigns \<open>self.init_file\<close> or raises; the result is the exception (if
  any), the object and the world afterwards. With an explicit path the attribute is
  assigned before the path is checked.
\<close>

definition set_init_file :: "Module \<Rightarrow> string option \<Rightarrow> world \<Rightarrow> error option \<times> Module \<times> world" where
  "set_init_file self init_file_arg w =
     (case init_file_arg of
        Some f \<Rightarrow>
          (if \<not> fst (path_exists (Path f) w)
           then (Some (FileNotFoundError
                         (''Module initialisation file not found'' @ [newline] @ str_path (Path f))),
                 self\<lparr>init_file := Some (Path f)\<rparr>, snd (path_exists (Path f) w))
           else (None, self\<lparr>init_file := Some (Path f)\<rparr>, snd (path_exists (Path f) w)))
      | None \<Rightarrow>
          (let possible_init_files = fst (path_glob (modules_home self) w);
               w1 = snd (path_glob (modules_home self) w)
           in if length possible_init_files = 0
              then (Some (FileNotFoundError ''Modules initialisation file could not be found. ''),
                    self, w1)
              else if length possible_init_files > 1
              then (Some (ValueError
                            (''Multiple possible Module initialisation files found'' @ [newline] @
                             join '', '' (map str_path possible_init_files))),
                    self, w1)
              else (None, self\<lparr>init_file := Some (possible_init_files ! 0)\<rparr>, w1)))"

subsection \<open>\<open>__init__\<close>\<close>

text \<open>The first four lines of \<open>__init__\<close>: the home given, or \<open>MODULESHOME\<close>.\<close>

definition resolve_home :: "string option \<Rightarrow> world \<Rightarrow> error + path" where
  "resolve_home home w =
     (case home of
        Some h \<Rightarrow> Inr (Path h)
      | None \<Rightarrow>
          (case os_environ w ''MODULESHOME'' of
             Some h \<Rightarrow> Inr (Path h)
           | None \<Rightarrow>
               Inl (ValueError ''Cannot automatically set modules_home. Environment variable MODULESHOME unset. Pass module home directory to Module'')))"

text \<open>
  Lines 132 to 135: \<open>globals()["module"]\<close>, with \<open>KeyError\<close> turned into
  \<open>EnvironmentError\<close>. Whatever is bound to \<open>module\<close> is returned; there is no check
  that it is a function. The three names \<open>globals\<close>, \<open>KeyError\<close> and
  \<open>EnvironmentError\<close> are looked up in the same globals before the builtins, and
  only when the statement gets to them. Where one that is read has been bound by a
  script, what happens depends on the object bound; such a run is outside the model
  and is marked \<open>Shadowed\<close>.
\<close>

definition fetch_module :: "(string \<rightharpoonup> pyobj) \<Rightarrow> error + pyobj" where
  "fetch_module g =
     (if g ''globals'' \<noteq> None then Inl (Shadowed ''globals'')
      else (case g ''module'' of
              Some obj \<Rightarrow> Inr obj
            | None \<Rightarrow>
                if g ''KeyError'' \<noteq> None then Inl (Shadowed ''KeyError'')
                else if g ''EnvironmentError'' \<noteq> None then Inl (Shadowed ''EnvironmentError'')
                else Inl (EnvironmentError ''The module environment could not be initialised.'')))"

definition builtins_kept :: "(string \<rightharpoonup> pyobj) \<Rightarrow> bool" where
  "builtins_kept g =
     (g ''globals'' = None \<and> g ''KeyError'' = None \<and> g ''EnvironmentError'' = None)"

text \<open>
  The rest of \<open>__init__\<close> after \<open>set_init_file\<close>: read the init script, run it in the
  globals, fetch \<open>module\<close> from the globals. \<open>open\<close> gets the path object and reads the
  file that \<open>str\<close> of it names. (Reading \<open>self.init_file\<close> before it is assigned
  would end in \<open>__getattr__\<close>; \<open>__init__\<close> never gets there, see
  \<open>set_init_file_sets\<close>.)
\<close>

definition bootstrap :: "interpreter \<Rightarrow> Module \<Rightarrow> world \<Rightarrow> (error + Module) \<times> world" where
  "bootstrap exec self w =
     (case init_file self of
        None \<Rightarrow> (Inl (AttributeError ''Module has no such attribute init_file''), w)
      | Some p \<Rightarrow>
          (case fst (open_read (str_path p) w) of
             Inl e \<Rightarrow> (Inl e, snd (open_read (str_path p) w))
           | Inr source \<Rightarrow>
               (let w1 = snd (open_read (str_path p) w);
                    ran = exec source (os_environ w1) (globals w1);
                    w2 = w1\<lparr>os_environ := fst (snd ran), globals := snd (snd ran)\<rparr>
                in case fst ran of
                     Some e \<Rightarrow> (Inl e, w2)
                   | None \<Rightarrow>
                       (case fetch_module (globals w2) of
                          Inl e \<Rightarrow> (Inl e, w2)
                        | Inr obj \<Rightarrow> (Inr (self\<lparr>module := Some obj\<rparr>), w2)))))"

definition init :: "interpreter \<Rightarrow> string option \<Rightarrow> string option \<Rightarrow> world \<Rightarrow> (error + Module) \<times> world" where
  "init exec home init_file_arg w =
     (case resolve_home home w of
        Inl e \<Rightarrow> (Inl e, w)
      | Inr h \<Rightarrow>
          (case set_init_file (new_Module h) init_file_arg w of
             (Some e, self, w1) \<Rightarrow> (Inl e, w1)
           | (None, self, w1) \<Rightarrow> bootstrap exec self w1))"

subsection \<open>The manual parser\<close>

text \<open>
  The name that goes to \<open>open\<close>: the argument as it is given, or the standard location
  below the home.
\<close>

definition man_path :: "Module \<Rightarrow> string option \<Rightarrow> string" where
  "man_path self man_file =
     (case man_file of
        None \<Rightarrow>
          os_path_join (str_path (modules_home self)) [''share'', ''man'', ''man1'', ''module.1'']
      | Some f \<Rightarrow> f)"

text \<open>\<^verbatim>\<open>".SS Module Sub\-Commands"\<close>, with the backslash the Python literal keeps.\<close>

definition sub_commands_marker :: string where
  "sub_commands_marker = ''.SS Module Sub'' @ [backslash] @ ''-Commands''"

definition sub_commands_section :: "string \<Rightarrow> string" where
  "sub_commands_section man =
     (let start = str_find man sub_commands_marker;
          end = start + str_find (slice_from man (start + 3)) ''.SS'' + 1
      in slice man start end)"

definition get_sub_commands :: "Module \<Rightarrow> string option \<Rightarrow> world \<Rightarrow> (error + Module) \<times> world" where
  "get_sub_commands self man_file w =
     (case fst (open_read (man_path self man_file) w) of
        Inl e \<Rightarrow> Inl e
      | Inr man \<Rightarrow>
          Inr (self\<lparr>sub_commands := findall sub_command_regex (sub_commands_section man)\<rparr>),
      snd (open_read (man_path self man_file) w))"

definition environment_vars_section :: "string \<Rightarrow> string" where
  "environment_vars_section man =
     (let start = str_find man ''.SH ENVIRONMENT'';
          end = start + str_find (slice_from man (start + 3)) (newline # ''.S'') + 1
      in slice man start end)"

definition get_environment_variables :: "Module \<Rightarrow> string option \<Rightarrow> world \<Rightarrow> (error + Module) \<times> world" where
  "get_environment_variables self man_file w =
     (case fst (open_read (man_path self man_file) w) of
        Inl e \<Rightarrow> Inl e
      | Inr man \<Rightarrow>
          Inr (self\<lparr>envinronment_variables :=
                       findall environment_variable_regex (environment_vars_section man)\<rparr>),
      snd (open_read (man_path self man_file) w))"

definition parse_man_file :: "Module \<Rightarrow> string option \<Rightarrow> world \<Rightarrow> (error + Module) \<times> world" where
  "parse_man_file self man_file w =
     (case get_sub_commands self man_file w of
        (Inl e, w1) \<Rightarrow> (Inl e, w1)
      | (Inr self1, w1) \<Rightarrow> get_environment_variables self1 man_file w1)"

subsection \<open>\<open>__getattr__\<close> and attribute access\<close>

type_synonym callable = "pyval list \<Rightarrow> kwargs \<Rightarrow> world \<Rightarrow> (error + pyval) \<times> world"

text \<open>
  The closure \<open>wrapper\<close> that \<open>__getattr__\<close> returns: \<open>self.module(_name, *args,
  **kwargs)\<close>. Were \<open>self.module\<close> not assigned, looking it up would come back to
  \<open>__getattr__\<close>: without end when \<open>module\<close> is itself a sub-command, with an
  \<open>AttributeError\<close> otherwise. Calling a stored object that is not a function
  raises \<open>TypeError\<close>.
\<close>

definition wrapper :: "Module \<Rightarrow> string \<Rightarrow> callable" where
  "wrapper self name args kw w =
     (case module self of
        Some (Fn d) \<Rightarrow> invoke d (PStr name # args) kw w
      | Some (Obj v) \<Rightarrow>
          (Inl (TypeError ([CHR 0x27] @ type_name v @ [CHR 0x27] @ '' object is not callable'')), w)
      | None \<Rightarrow>
          (Inl (if ''module'' \<in> set (sub_commands self) then RecursionError
                else AttributeError ''Module has no such attribute module''), w))"

definition getattr :: "Module \<Rightarrow> string \<Rightarrow> error + callable" where
  "getattr self name =
     (if name \<in> set (sub_commands self) then Inr (wrapper self name)
      else Inl (AttributeError (''Module has no such attribute '' @ name)))"

text \<open>
  The call \<open>self.name(*args, **kwargs)\<close> on a name that goes through \<open>__getattr__\<close>.
\<close>

definition forward :: "Module \<Rightarrow> string \<Rightarrow> callable" where
  "forward self name args kw w =
     (case getattr self name of Inl e \<Rightarrow> (Inl e, w) | Inr f \<Rightarrow> f args kw w)"

text \<open>
  Python calls \<open>__getattr__\<close> only for a name that ordinary lookup does not find
  (the comment in \<open>__getattr__\<close> says so). Ordinary lookup finds the attributes the
  instance has been assigned, the members the class body defines, and the members
  every class inherits from \<open>object\<close>; the names of the last kind are a parameter.
\<close>

definition class_members :: "string list" where
  "class_members =
     [''sub_commands'', ''envinronment_variables'', ''__init__'', ''set_init_file'',
      ''parse_man_file'', ''get_sub_commands'', ''get_environment_variables'',
      ''__getattr__'', ''environ'']"

definition intrinsic :: "string list \<Rightarrow> Module \<Rightarrow> string \<Rightarrow> bool" where
  "intrinsic inherited self name =
     (name = ''modules_home'' \<or> (name = ''init_file'' \<and> init_file self \<noteq> None) \<or>
      (name = ''module'' \<and> module self \<noteq> None) \<or>
      name \<in> set class_members \<or> name \<in> set inherited)"

text \<open>
  What an attribute access yields: a function that can be called (the stored
  dispatcher, or a wrapper), or another member, given by its name.
\<close>

datatype attribute = Function callable | Member string

definition getattribute :: "string list \<Rightarrow> Module \<Rightarrow> string \<Rightarrow> error + attribute" where
  "getattribute inherited self name =
     (if intrinsic inherited self name
      then (case (if name = ''module'' then module self else None) of
              Some (Fn d) \<Rightarrow> Inr (Function (invoke d))
            | _ \<Rightarrow> Inr (Member name))
      else (case getattr self name of Inl e \<Rightarrow> Inl e | Inr f \<Rightarrow> Inr (Function f)))"

subsection \<open>The property \<open>environ\<close>\<close>

text \<open>The dictionary comprehension, one variable after the other.\<close>

definition environ :: "Module \<Rightarrow> world \<Rightarrow> env" where
  "environ self w =
     fold (\<lambda>var d. case os_environ w var of None \<Rightarrow> d | Some v \<Rightarrow> d(var \<mapsto> v))
          (envinronment_variables self) Map.empty"

section \<open>A concrete installation\<close>

text \<open>
  A dispatcher that returns its positional arguments and records a loaded module in
  the environment, and an interpreter that knows three scripts: \<open>def module\<close> binds
  the dispatcher, \<open>module = 42\<close> binds a number, \<open>raise\<close> raises, and anything else
  binds nothing. The filesystem has a well-formed installation under
  \<open>/opt/modules\<close>, a home without init script (\<open>/empty\<close>), one with two (\<open>/two\<close>),
  one whose script defines no dispatcher (\<open>/broken\<close>), one whose script binds a
  number (\<open>/number\<close>), one whose script raises (\<open>/raising\<close>), an init script outside
  any home (\<open>/init.py\<close>), and two more manual pages.
\<close>

definition example_dispatcher :: dispatcher where
  "example_dispatcher args kw e = (Inr (PList args), e(''LOADEDMODULES'' \<mapsto> ''gcc''))"

definition example_interpreter :: interpreter where
  "example_interpreter source e g =
     (if source = ''def module'' then (None, e, g(''module'' \<mapsto> Fn example_dispatcher))
      else if source = ''module = 42'' then (None, e, g(''module'' \<mapsto> Obj (PInt 42)))
      else if source = ''raise'' then (Some (Raised ''RuntimeError''), e, g)
      else (None, e, g))"

text \<open>
  Manual pages. An entry is written as the manual writes a sub-command: a paragraph
  break and the name in bold. In \<open>example_man\<close> the sub-commands section holds the
  entries \<open>A\<close> and \<open>B-C\<close> and nothing else, and there is no environment section; in
  \<open>example_man_described\<close> each entry is followed by a line of description; in
  \<open>example_man_odd\<close> the section lists \<open>module\<close> as a sub-command.
\<close>

definition man_entry :: "string \<Rightarrow> string" where
  "man_entry name = ''.sp'' @ [newline, backslash] @ ''fB'' @ name @ [backslash] @ ''fP'' @ [newline]"

definition example_man :: string where
  "example_man =
     ''.SH NAME'' @ [newline] @
     sub_commands_marker @ [newline] @ man_entry ''A'' @ man_entry ''B-C'' @
     ''.SS Modulefiles'' @ [newline]"

definition example_man_described :: string where
  "example_man_described =
     ''.SH NAME'' @ [newline] @
     sub_commands_marker @ [newline] @
     man_entry ''A'' @ ''First.'' @ [newline] @
     man_entry ''B-C'' @ ''Second.'' @ [newline] @
     ''.SS Modulefiles'' @ [newline]"

definition example_man_odd :: string where
  "example_man_odd =
     sub_commands_marker @ [newline] @
     man_entry ''module'' @ ''The command itself.'' @ [newline] @
     ''.SS Modulefiles'' @ [newline]"

definition example_fs :: node where
  "example_fs =
     Dir [(''opt'', Dir [(''modules'', Dir
             [(''init'', Dir [(''bash'', File ''#''), (''python.py'', File ''def module'')]),
              (''share'', Dir [(''man'', Dir [(''man1'', Dir
                 [(''module.1'', File example_man)])])])])]),
          (''empty'', Dir [(''init'', Dir [(''bash'', File ''#'')])]),
          (''two'', Dir [(''init'', Dir [(''python.py'', File ''def module'')]),
                         (''v4'', Dir [(''init'', Dir [(''python3.py'', File ''def module'')])])]),
          (''broken'', Dir [(''init'', Dir [(''python.py'', File ''pass'')])]),
          (''number'', Dir [(''init'', Dir [(''python.py'', File ''module = 42'')])]),
          (''raising'', Dir [(''init'', Dir [(''python.py'', File ''raise'')])]),
          (''init.py'', File ''def module''),
          (''described.1'', File example_man_described),
          (''odd.1'', File example_man_odd)]"

definition example_world :: world where
  "example_world =
     \<lparr>os_environ = Map.empty, fs = example_fs, globals = Map.empty, fs_log = [], calls = []\<rparr>"

text \<open>An instance as construction under \<open>/opt/modules\<close> leaves it.\<close>

definition example_module :: Module where
  "example_module =
     (new_Module [''/'', ''opt'', ''modules''])
       \<lparr>init_file := Some [''/'', ''opt'', ''modules'', ''init'', ''python.py''],
        module := Some (Fn example_dispatcher)\<rparr>"

section \<open>Properties\<close>

subsection \<open>Facts about the concrete installation\<close>

lemma example_Path_modules: "Path ''/opt/modules'' = [''/'', ''opt'', ''modules'']"
  by code_simp

lemma example_Path_broken: "Path ''/broken'' = [''/'', ''broken'']"
  by code_simp

lemma example_Path_empty: "Path ''/empty'' = [''/'', ''empty'']"
  by code_simp

lemma example_Path_two: "Path ''/two'' = [''/'', ''two'']"
  by code_simp

lemma example_glob_modules:
  "glob_init example_fs [''/'', ''opt'', ''modules''] =
     [[''/'', ''opt'', ''modules'', ''init'', ''python.py'']]"
  by code_simp

lemma example_glob_broken:
  "glob_init example_fs [''/'', ''broken''] = [[''/'', ''broken'', ''init'', ''python.py'']]"
  by code_simp

lemma example_glob_empty: "glob_init example_fs [''/'', ''empty''] = []"
  by code_simp

lemma example_glob_two:
  "glob_init example_fs [''/'', ''two''] =
     [[''/'', ''two'', ''init'', ''python.py''], [''/'', ''two'', ''v4'', ''init'', ''python3.py'']]"
  by code_simp

lemma example_Path_number: "Path ''/number'' = [''/'', ''number'']"
  by code_simp

lemma example_Path_raising: "Path ''/raising'' = [''/'', ''raising'']"
  by code_simp

lemma example_glob_number:
  "glob_init example_fs [''/'', ''number''] = [[''/'', ''number'', ''init'', ''python.py'']]"
  by code_simp

lemma example_glob_raising:
  "glob_init example_fs [''/'', ''raising''] = [[''/'', ''raising'', ''init'', ''python.py'']]"
  by code_simp

lemma open_read_file:
  assumes "\<not> names_directory name"
    and "resolve (fs w) (Path name) = Some (File text)"
  shows "open_read name w = (Inr text, w\<lparr>fs_log := fs_log w @ [Open name]\<rparr>)"
  using assms by (simp add: open_read_def)

lemma example_open_modules:
  assumes "fs w = example_fs"
  shows "open_read (str_path [''/'', ''opt'', ''modules'', ''init'', ''python.py'']) w =
           (Inr ''def module'', w\<lparr>fs_log := fs_log w @ [Open ''/opt/modules/init/python.py'']\<rparr>)"
proof -
  have name: "str_path [''/'', ''opt'', ''modules'', ''init'', ''python.py''] =
      ''/opt/modules/init/python.py''"
    by code_simp
  have "\<not> names_directory ''/opt/modules/init/python.py''"
    by code_simp
  moreover have "resolve example_fs (Path ''/opt/modules/init/python.py'') = Some (File ''def module'')"
    by code_simp
  ultimately show ?thesis
    unfolding name using assms by (intro open_read_file) simp_all
qed

lemma example_open_broken:
  assumes "fs w = example_fs"
  shows "open_read (str_path [''/'', ''broken'', ''init'', ''python.py'']) w =
           (Inr ''pass'', w\<lparr>fs_log := fs_log w @ [Open ''/broken/init/python.py'']\<rparr>)"
proof -
  have name: "str_path [''/'', ''broken'', ''init'', ''python.py''] = ''/broken/init/python.py''"
    by code_simp
  have "\<not> names_directory ''/broken/init/python.py''"
    by code_simp
  moreover have "resolve example_fs (Path ''/broken/init/python.py'') = Some (File ''pass'')"
    by code_simp
  ultimately show ?thesis
    unfolding name using assms by (intro open_read_file) simp_all
qed

lemma example_open_number:
  assumes "fs w = example_fs"
  shows "open_read (str_path [''/'', ''number'', ''init'', ''python.py'']) w =
           (Inr ''module = 42'', w\<lparr>fs_log := fs_log w @ [Open ''/number/init/python.py'']\<rparr>)"
proof -
  have name: "str_path [''/'', ''number'', ''init'', ''python.py''] = ''/number/init/python.py''"
    by code_simp
  have "\<not> names_directory ''/number/init/python.py''"
    by code_simp
  moreover have "resolve example_fs (Path ''/number/init/python.py'') = Some (File ''module = 42'')"
    by code_simp
  ultimately show ?thesis
    unfolding name using assms by (intro open_read_file) simp_all
qed

lemma example_open_raising:
  assumes "fs w = example_fs"
  shows "open_read (str_path [''/'', ''raising'', ''init'', ''python.py'']) w =
           (Inr ''raise'', w\<lparr>fs_log := fs_log w @ [Open ''/raising/init/python.py'']\<rparr>)"
proof -
  have name: "str_path [''/'', ''raising'', ''init'', ''python.py''] = ''/raising/init/python.py''"
    by code_simp
  have "\<not> names_directory ''/raising/init/python.py''"
    by code_simp
  moreover have "resolve example_fs (Path ''/raising/init/python.py'') = Some (File ''raise'')"
    by code_simp
  ultimately show ?thesis
    unfolding name using assms by (intro open_read_file) simp_all
qed

lemma example_open_init_py:
  assumes "fs w = example_fs"
  shows "open_read (str_path [''/'', ''init.py'']) w =
           (Inr ''def module'', w\<lparr>fs_log := fs_log w @ [Open ''/init.py'']\<rparr>)"
proof -
  have name: "str_path [''/'', ''init.py''] = ''/init.py''"
    by code_simp
  have "\<not> names_directory ''/init.py''"
    by code_simp
  moreover have "resolve example_fs (Path ''/init.py'') = Some (File ''def module'')"
    by code_simp
  ultimately show ?thesis
    unfolding name using assms by (intro open_read_file) simp_all
qed

lemma example_man_no_environment: "str_find example_man ''.SH ENVIRONMENT'' = - 1"
  by code_simp

lemma example_man_path:
  "man_path example_module None = ''/opt/modules/share/man/man1/module.1''"
proof -
  have "os_path_join (str_path [''/'', ''opt'', ''modules''])
          [''share'', ''man'', ''man1'', ''module.1''] = ''/opt/modules/share/man/man1/module.1''"
    by code_simp
  then show ?thesis
    by (simp add: man_path_def example_module_def new_Module_def)
qed

lemma example_open_man:
  "fst (open_read (man_path example_module None) example_world) = Inr example_man"
proof -
  have "\<not> names_directory ''/opt/modules/share/man/man1/module.1''"
    by code_simp
  moreover have "resolve example_fs (Path ''/opt/modules/share/man/man1/module.1'') =
      Some (File example_man)"
    by code_simp
  ultimately show ?thesis
    by (simp add: example_man_path open_read_file example_world_def)
qed

lemma example_open_described:
  "fst (open_read (man_path example_module (Some ''/described.1'')) example_world) =
     Inr example_man_described"
proof -
  have "\<not> names_directory ''/described.1''"
    by code_simp
  moreover have "resolve example_fs (Path ''/described.1'') = Some (File example_man_described)"
    by code_simp
  ultimately show ?thesis
    by (simp add: man_path_def open_read_file example_world_def)
qed

lemma example_open_odd:
  "fst (open_read (man_path example_module (Some ''/odd.1'')) example_world) =
     Inr example_man_odd"
proof -
  have "\<not> names_directory ''/odd.1''"
    by code_simp
  moreover have "resolve example_fs (Path ''/odd.1'') = Some (File example_man_odd)"
    by code_simp
  ultimately show ?thesis
    by (simp add: man_path_def open_read_file example_world_def)
qed

text \<open>
  Construction step by step, with the init script searched or given: the home, the
  script, its text, the run of the script, and what \<open>fetch_module\<close> finds afterwards.
\<close>

lemma init_by_search:
  assumes home: "resolve_home home w = Inr h"
    and found: "glob_init (fs w) h = [p]"
    and readable: "open_read (str_path p) (w\<lparr>fs_log := fs_log w @ [Glob h]\<rparr>) = (Inr source, w2)"
    and ran: "exec source (os_environ w2) (globals w2) = (raised, e', g')"
  shows "init exec home None w =
           (case raised of
              Some e \<Rightarrow> Inl e
            | None \<Rightarrow>
                (case fetch_module g' of
                   Inl e \<Rightarrow> Inl e
                 | Inr obj \<Rightarrow> Inr ((new_Module h)\<lparr>init_file := Some p, module := Some obj\<rparr>)),
            w2\<lparr>os_environ := e', globals := g'\<rparr>)"
  using assms
  by (simp add: init_def set_init_file_def path_glob_def new_Module_def
      bootstrap_def Let_def split: option.split sum.split)

lemma init_by_script:
  assumes home: "resolve_home home w = Inr h"
    and there: "resolve (fs w) (Path f) \<noteq> None"
    and readable: "open_read (str_path (Path f)) (w\<lparr>fs_log := fs_log w @ [Exists (Path f)]\<rparr>) =
                     (Inr source, w2)"
    and ran: "exec source (os_environ w2) (globals w2) = (raised, e', g')"
  shows "init exec home (Some f) w =
           (case raised of
              Some e \<Rightarrow> Inl e
            | None \<Rightarrow>
                (case fetch_module g' of
                   Inl e \<Rightarrow> Inl e
                 | Inr obj \<Rightarrow>
                     Inr ((new_Module h)\<lparr>init_file := Some (Path f), module := Some obj\<rparr>)),
            w2\<lparr>os_environ := e', globals := g'\<rparr>)"
  using assms
  by (simp add: init_def set_init_file_def path_exists_def new_Module_def
      bootstrap_def Let_def split: option.split sum.split)

lemma example_home:
  "resolve_home (Some ''/opt/modules'') w = Inr [''/'', ''opt'', ''modules'']"
  by (simp add: resolve_home_def example_Path_modules)

lemma example_init_modules_full:
  "init example_interpreter (Some ''/opt/modules'') None example_world =
     (Inr example_module,
      example_world
        \<lparr>globals := [''module'' \<mapsto> Fn example_dispatcher],
         fs_log := [Glob [''/'', ''opt'', ''modules''], Open ''/opt/modules/init/python.py'']\<rparr>)"
proof -
  let ?w1 = "example_world\<lparr>fs_log := fs_log example_world @ [Glob [''/'', ''opt'', ''modules'']]\<rparr>"
  have found: "glob_init (fs example_world) [''/'', ''opt'', ''modules''] =
      [[''/'', ''opt'', ''modules'', ''init'', ''python.py'']]"
    by (simp add: example_world_def example_glob_modules)
  have readable: "open_read (str_path [''/'', ''opt'', ''modules'', ''init'', ''python.py'']) ?w1 =
      (Inr ''def module'', ?w1\<lparr>fs_log := fs_log ?w1 @ [Open ''/opt/modules/init/python.py'']\<rparr>)"
    by (rule example_open_modules) (simp add: example_world_def)
  have ran: "example_interpreter ''def module''
      (os_environ (?w1\<lparr>fs_log := fs_log ?w1 @ [Open ''/opt/modules/init/python.py'']\<rparr>))
      (globals (?w1\<lparr>fs_log := fs_log ?w1 @ [Open ''/opt/modules/init/python.py'']\<rparr>)) =
      (None, Map.empty, [''module'' \<mapsto> Fn example_dispatcher])"
    by (simp add: example_interpreter_def example_world_def)
  show ?thesis
    unfolding init_by_search [where exec = example_interpreter, OF example_home found readable ran]
    by (simp add: fetch_module_def example_module_def example_world_def)
qed

lemma example_init_modules:
  "fst (init example_interpreter (Some ''/opt/modules'') None example_world) = Inr example_module"
  by (simp add: example_init_modules_full)

subsection \<open>Facts about \<open>str_find\<close> and slices\<close>

lemma startswith_iff: "startswith s p \<longleftrightarrow> (\<exists>t. s = p @ t)"
  by (induction s p rule: startswith.induct) auto

lemma str_find_range:
  "str_find s sub = - 1 \<or> (0 \<le> str_find s sub \<and> str_find s sub + int (length sub) \<le> int (length s))"
proof (induction s)
  case Nil
  show ?case by simp
next
  case (Cons c cs)
  show ?case
  proof (cases "startswith (c # cs) sub")
    case True
    then obtain t where "c # cs = sub @ t"
      by (auto simp: startswith_iff)
    then have "length sub \<le> length (c # cs)"
      by (metis length_append le_add1)
    with True show ?thesis by simp
  next
    case False
    with Cons show ?thesis by (auto simp: Let_def)
  qed
qed

lemma str_find_absent:
  "str_find s sub = - 1 \<longleftrightarrow> \<not> (\<exists>pre post. s = pre @ sub @ post)"
proof (induction s)
  case Nil
  show ?case by auto
next
  case (Cons c cs)
  show ?case
  proof (cases "startswith (c # cs) sub")
    case True
    then obtain t where "c # cs = [] @ sub @ t"
      by (auto simp: startswith_iff)
    then have "\<exists>pre post. c # cs = pre @ sub @ post"
      by blast
    with True show ?thesis by simp
  next
    case False
    have here: "c # cs \<noteq> [] @ sub @ post" for post
      using False by (auto simp: startswith_iff)
    have "(\<exists>pre post. c # cs = pre @ sub @ post) \<longleftrightarrow> (\<exists>pre post. cs = pre @ sub @ post)"
    proof
      assume "\<exists>pre post. c # cs = pre @ sub @ post"
      then obtain pre post where eq: "c # cs = pre @ sub @ post"
        by blast
      with here have "pre \<noteq> []"
        by auto
      then obtain pre' where "pre = c # pre'"
        using eq by (cases pre) auto
      with eq show "\<exists>pre post. cs = pre @ sub @ post"
        by auto
    next
      assume "\<exists>pre post. cs = pre @ sub @ post"
      then obtain pre post where "cs = pre @ sub @ post"
        by blast
      then have "c # cs = (c # pre) @ sub @ post"
        by simp
      then show "\<exists>pre post. c # cs = pre @ sub @ post"
        by blast
    qed
    moreover have "str_find (c # cs) sub = - 1 \<longleftrightarrow> str_find cs sub = - 1"
      using False str_find_range [of cs sub] by (auto simp: Let_def)
    ultimately show ?thesis
      using Cons by simp
  qed
qed

lemma slice_after_missing_marker:
  assumes "k = - 1 \<or> (0 \<le> k \<and> k + 3 \<le> int (length (slice_from man 2)))"
  shows "slice man (- 1) (- 1 + k + 1) = []"
  using assms by (auto simp: slice_def slice_from_def slice_bound_def Let_def)

lemma str_find_found:
  "0 \<le> str_find s sub \<Longrightarrow> startswith (drop (nat (str_find s sub)) s) sub"
proof (induction s)
  case Nil
  then show ?case by (simp split: if_splits)
next
  case (Cons c cs)
  show ?case
  proof (cases "startswith (c # cs) sub")
    case True
    then show ?thesis by simp
  next
    case False
    with Cons.prems have nonneg: "0 \<le> str_find cs sub"
      by (simp add: Let_def split: if_splits)
    with False have "str_find (c # cs) sub = str_find cs sub + 1"
      by (simp add: Let_def)
    moreover have "nat (str_find cs sub + 1) = Suc (nat (str_find cs sub))"
      using nonneg by simp
    ultimately show ?thesis
      using Cons.IH [OF nonneg] by simp
  qed
qed

subsection \<open>Construction without a home\<close>

text \<open>
  C8. Without a home argument and with \<open>MODULESHOME\<close> unset, construction raises the
  \<open>ValueError\<close> whose message names \<open>MODULESHOME\<close> and asks for the home
  directory to be passed; the world is returned as it was, so nothing has been added
  to the history of filesystem accesses.
\<close>

theorem init_without_home:
  assumes "os_environ w ''MODULESHOME'' = None"
  shows "init exec None init_file_arg w =
           (Inl (ValueError ''Cannot automatically set modules_home. Environment variable MODULESHOME unset. Pass module home directory to Module''), w) \<and>
         fs_log (snd (init exec None init_file_arg w)) = fs_log w"
  using assms by (simp add: init_def resolve_home_def)

theorem init_without_home_witness:
  "os_environ example_world ''MODULESHOME'' = None \<and>
   init example_interpreter None None example_world =
     (Inl (ValueError ''Cannot automatically set modules_home. Environment variable MODULESHOME unset. Pass module home directory to Module''), example_world) \<and>
   fs_log (snd (init example_interpreter None None example_world)) = []"
proof -
  have unset: "os_environ example_world ''MODULESHOME'' = None"
    by (simp add: example_world_def)
  have "fs_log example_world = []"
    by (simp add: example_world_def)
  with unset init_without_home [OF unset, of example_interpreter None] show ?thesis
    by simp
qed

subsection \<open>Home resolution comes first\<close>

text \<open>
  C10. An explicit init script that exists does not replace the home: without a home
  argument and with \<open>MODULESHOME\<close> unset, construction with that init script still
  raises the same \<open>ValueError\<close> and leaves the world as it was, although
  \<open>set_init_file\<close> on its own accepts the script.
\<close>

theorem explicit_init_file_needs_home:
  assumes "os_environ w ''MODULESHOME'' = None"
    and "fst (path_exists (Path f) w)"
  shows "init exec None (Some f) w =
           (Inl (ValueError ''Cannot automatically set modules_home. Environment variable MODULESHOME unset. Pass module home directory to Module''), w) \<and>
         fst (set_init_file self (Some f) w) = None"
  using assms by (simp add: init_def resolve_home_def set_init_file_def)

theorem explicit_init_file_needs_home_witness:
  "os_environ example_world ''MODULESHOME'' = None \<and>
   fst (path_exists (Path ''/init.py'') example_world) \<and>
   init example_interpreter None (Some ''/init.py'') example_world =
     (Inl (ValueError ''Cannot automatically set modules_home. Environment variable MODULESHOME unset. Pass module home directory to Module''), example_world)"
proof -
  have unset: "os_environ example_world ''MODULESHOME'' = None"
    by (simp add: example_world_def)
  have "resolve example_fs (Path ''/init.py'') \<noteq> None"
    by code_simp
  then have there: "fst (path_exists (Path ''/init.py'') example_world)"
    by (simp add: path_exists_def example_world_def)
  from explicit_init_file_needs_home [OF unset there, of example_interpreter] unset there
  show ?thesis by simp
qed

subsection \<open>Names that are not sub-commands\<close>

text \<open>
  C5. A name that is not in \<open>sub_commands\<close> and is not an intrinsic member of the
  object cannot be accessed: the access raises the \<open>AttributeError\<close> whose message
  ends with the name, and a call through that name returns the same error with the
  world unchanged, so no dispatcher call has been recorded.
\<close>

theorem unknown_name:
  assumes "name \<notin> set (sub_commands self)"
    and "\<not> intrinsic inherited self name"
  shows "getattribute inherited self name =
           Inl (AttributeError (''Module has no such attribute '' @ name)) \<and>
         forward self name args kw w =
           (Inl (AttributeError (''Module has no such attribute '' @ name)), w)"
  using assms by (simp add: getattribute_def getattr_def forward_def)

theorem unknown_name_witness:
  "''lode'' \<notin> set (sub_commands example_module) \<and>
   \<not> intrinsic [''__class__'', ''__dict__''] example_module ''lode'' \<and>
   getattribute [''__class__'', ''__dict__''] example_module ''lode'' =
     Inl (AttributeError ''Module has no such attribute lode'') \<and>
   forward example_module ''lode'' [PStr ''gcc''] [] example_world =
     (Inl (AttributeError ''Module has no such attribute lode''), example_world)"
proof -
  have a: "''lode'' \<notin> set (sub_commands example_module)"
    by (simp add: example_module_def new_Module_def default_sub_commands_def)
  have b: "\<not> intrinsic [''__class__'', ''__dict__''] example_module ''lode''"
    by (simp add: intrinsic_def class_members_def)
  from unknown_name [OF a b, of "[PStr ''gcc'']" "[]" example_world] a b
  show ?thesis by simp
qed

subsection \<open>The environment view\<close>

lemma environ_fold:
  "fold (\<lambda>var d. case e var of None \<Rightarrow> d | Some v \<Rightarrow> d(var \<mapsto> v)) vars d0 =
     (\<lambda>v. if v \<in> set vars \<and> e v \<noteq> None then e v else d0 v)"
proof (induction vars arbitrary: d0)
  case Nil
  show ?case by simp
next
  case (Cons x xs)
  show ?case
    by (cases "e x") (auto simp: Cons.IH fun_eq_iff)
qed

text \<open>
  C6. The mapping that \<open>environ\<close> returns is the process environment restricted to
  the names of \<open>envinronment_variables\<close>: its keys are exactly the listed names that
  are set, and each key has its current value.
\<close>

theorem environ_view:
  "environ self w = os_environ w |` set (envinronment_variables self) \<and>
   dom (environ self w) = set (envinronment_variables self) \<inter> dom (os_environ w)"
proof -
  have eq: "environ self w = os_environ w |` set (envinronment_variables self)"
    unfolding environ_def environ_fold by (auto simp: restrict_map_def fun_eq_iff)
  show ?thesis
    unfolding eq by auto
qed

subsection \<open>The dispatcher comes from the globals\<close>

text \<open>
  C7, as the code has it. Take a construction that has resolved the home and has
  found and read the init script. If the script raises, construction fails with
  that exception. If it runs through, and the builtin names read afterwards
  (\<open>globals\<close>, \<open>KeyError\<close>, \<open>EnvironmentError\<close>) are not bound in the globals,
  construction depends on the globals as they are after the run: if \<open>module\<close> is not
  bound there, construction raises the \<open>EnvironmentError\<close> ``The module environment
  could not be initialised.''; if it is bound -- by this script or by the script of an
  earlier construction, to a function or to any other object -- the instance stores
  exactly that object as its dispatcher.
\<close>

theorem dispatcher_from_globals:
  assumes home: "resolve_home home w = Inr h"
    and found: "set_init_file (new_Module h) init_file_arg w = (None, self, w1)"
    and script: "init_file self = Some p"
    and readable: "open_read (str_path p) w1 = (Inr source, w2)"
    and ran: "exec source (os_environ w2) (globals w2) = (raised, e', g')"
    and kept: "raised = None \<Longrightarrow> builtins_kept g'"
  shows "init exec home init_file_arg w =
           (case raised of
              Some e \<Rightarrow> Inl e
            | None \<Rightarrow>
                (case g' ''module'' of
                   None \<Rightarrow>
                     Inl (EnvironmentError ''The module environment could not be initialised.'')
                 | Some obj \<Rightarrow> Inr (self\<lparr>module := Some obj\<rparr>)),
            w2\<lparr>os_environ := e', globals := g'\<rparr>)"
proof -
  have "init exec home init_file_arg w = bootstrap exec self w1"
    using home found by (simp add: init_def)
  also have "\<dots> =
      (case raised of
         Some e \<Rightarrow> Inl e
       | None \<Rightarrow> (case fetch_module g' of Inl e \<Rightarrow> Inl e | Inr obj \<Rightarrow> Inr (self\<lparr>module := Some obj\<rparr>)),
       w2\<lparr>os_environ := e', globals := g'\<rparr>)"
    using script readable ran
    by (simp add: bootstrap_def Let_def split: option.split sum.split)
  also have "\<dots> =
      (case raised of
         Some e \<Rightarrow> Inl e
       | None \<Rightarrow>
           (case g' ''module'' of
              None \<Rightarrow> Inl (EnvironmentError ''The module environment could not be initialised.'')
            | Some obj \<Rightarrow> Inr (self\<lparr>module := Some obj\<rparr>)),
       w2\<lparr>os_environ := e', globals := g'\<rparr>)"
  proof (cases raised)
    case None
    with kept have "builtins_kept g'"
      by simp
    with None show ?thesis
      by (simp add: fetch_module_def builtins_kept_def split: option.split)
  next
    case (Some e)
    then show ?thesis by simp
  qed
  finally show ?thesis .
qed

theorem dispatcher_from_globals_witness:
  "fst (init example_interpreter (Some ''/opt/modules'') None example_world) = Inr example_module \<and>
   fst (init example_interpreter (Some ''/broken'') None example_world) =
     Inl (EnvironmentError ''The module environment could not be initialised.'') \<and>
   fst (init example_interpreter (Some ''/number'') None example_world) =
     Inr ((new_Module [''/'', ''number''])
            \<lparr>init_file := Some [''/'', ''number'', ''init'', ''python.py''],
             module := Some (Obj (PInt 42))\<rparr>) \<and>
   fst (init example_interpreter (Some ''/raising'') None example_world) =
     Inl (Raised ''RuntimeError'')"
proof -
  have searched:
    "init example_interpreter (Some hs) None example_world =
       (case raised of
          Some e \<Rightarrow> Inl e
        | None \<Rightarrow>
            (case g' ''module'' of
               None \<Rightarrow> Inl (EnvironmentError ''The module environment could not be initialised.'')
             | Some obj \<Rightarrow> Inr ((new_Module h)\<lparr>init_file := Some p, module := Some obj\<rparr>)),
        w2\<lparr>os_environ := e', globals := g'\<rparr>)"
    if "Path hs = h" and "glob_init example_fs h = [p]"
      and "open_read (str_path p) (example_world\<lparr>fs_log := [Glob h]\<rparr>) = (Inr source, w2)"
      and "example_interpreter source (os_environ w2) (globals w2) = (raised, e', g')"
      and "raised = None \<Longrightarrow> builtins_kept g'"
    for hs h p source w2 raised e' g'
  proof -
    have home: "resolve_home (Some hs) example_world = Inr h"
      using that(1) by (simp add: resolve_home_def)
    have found: "set_init_file (new_Module h) None example_world =
        (None, (new_Module h)\<lparr>init_file := Some p\<rparr>, example_world\<lparr>fs_log := [Glob h]\<rparr>)"
      using that(2)
      by (simp add: set_init_file_def path_glob_def new_Module_def example_world_def)
    have script: "init_file ((new_Module h)\<lparr>init_file := Some p\<rparr>) = Some p"
      by simp
    from dispatcher_from_globals [where exec = example_interpreter,
        OF home found script that(3) that(4) that(5)]
    show ?thesis by simp
  qed
  let ?log = "\<lambda>h name. example_world\<lparr>fs_log := [Glob h, Open name]\<rparr>"
  have fs: "fs (example_world\<lparr>fs_log := log\<rparr>) = example_fs" for log
    by (simp add: example_world_def)
  have state: "os_environ (example_world\<lparr>fs_log := log\<rparr>) = Map.empty"
    "globals (example_world\<lparr>fs_log := log\<rparr>) = Map.empty" for log
    by (simp_all add: example_world_def)
  have "fst (init example_interpreter (Some ''/opt/modules'') None example_world) =
      Inr example_module"
  proof -
    have rd: "open_read (str_path [''/'', ''opt'', ''modules'', ''init'', ''python.py''])
        (example_world\<lparr>fs_log := [Glob [''/'', ''opt'', ''modules'']]\<rparr>) =
        (Inr ''def module'', ?log [''/'', ''opt'', ''modules''] ''/opt/modules/init/python.py'')"
      using example_open_modules [OF fs] by simp
    have rn: "example_interpreter ''def module''
        (os_environ (?log [''/'', ''opt'', ''modules''] ''/opt/modules/init/python.py''))
        (globals (?log [''/'', ''opt'', ''modules''] ''/opt/modules/init/python.py'')) =
        (None, Map.empty, [''module'' \<mapsto> Fn example_dispatcher])"
      by (simp add: example_interpreter_def state)
    have kp: "None = None \<Longrightarrow> builtins_kept [''module'' \<mapsto> Fn example_dispatcher]"
      by (simp add: builtins_kept_def)
    from searched [OF example_Path_modules example_glob_modules rd rn kp] show ?thesis
      by (simp add: example_module_def)
  qed
  moreover have "fst (init example_interpreter (Some ''/broken'') None example_world) =
      Inl (EnvironmentError ''The module environment could not be initialised.'')"
  proof -
    have rd: "open_read (str_path [''/'', ''broken'', ''init'', ''python.py''])
        (example_world\<lparr>fs_log := [Glob [''/'', ''broken'']]\<rparr>) =
        (Inr ''pass'', ?log [''/'', ''broken''] ''/broken/init/python.py'')"
      using example_open_broken [OF fs] by simp
    have rn: "example_interpreter ''pass''
        (os_environ (?log [''/'', ''broken''] ''/broken/init/python.py''))
        (globals (?log [''/'', ''broken''] ''/broken/init/python.py'')) =
        (None, Map.empty, Map.empty)"
      by (simp add: example_interpreter_def state)
    have kp: "None = None \<Longrightarrow> builtins_kept Map.empty"
      by (simp add: builtins_kept_def)
    from searched [OF example_Path_broken example_glob_broken rd rn kp] show ?thesis
      by simp
  qed
  moreover have "fst (init example_interpreter (Some ''/number'') None example_world) =
     Inr ((new_Module [''/'', ''number''])
            \<lparr>init_file := Some [''/'', ''number'', ''init'', ''python.py''],
             module := Some (Obj (PInt 42))\<rparr>)"
  proof -
    have rd: "open_read (str_path [''/'', ''number'', ''init'', ''python.py''])
        (example_world\<lparr>fs_log := [Glob [''/'', ''number'']]\<rparr>) =
        (Inr ''module = 42'', ?log [''/'', ''number''] ''/number/init/python.py'')"
      using example_open_number [OF fs] by simp
    have rn: "example_interpreter ''module = 42''
        (os_environ (?log [''/'', ''number''] ''/number/init/python.py''))
        (globals (?log [''/'', ''number''] ''/number/init/python.py'')) =
        (None, Map.empty, [''module'' \<mapsto> Obj (PInt 42)])"
      by (simp add: example_interpreter_def state)
    have kp: "None = None \<Longrightarrow> builtins_kept [''module'' \<mapsto> Obj (PInt 42)]"
      by (simp add: builtins_kept_def)
    from searched [OF example_Path_number example_glob_number rd rn kp] show ?thesis
      by simp
  qed
  moreover have "fst (init example_interpreter (Some ''/raising'') None example_world) =
     Inl (Raised ''RuntimeError'')"
  proof -
    have rd: "open_read (str_path [''/'', ''raising'', ''init'', ''python.py''])
        (example_world\<lparr>fs_log := [Glob [''/'', ''raising'']]\<rparr>) =
        (Inr ''raise'', ?log [''/'', ''raising''] ''/raising/init/python.py'')"
      using example_open_raising [OF fs] by simp
    have rn: "example_interpreter ''raise''
        (os_environ (?log [''/'', ''raising''] ''/raising/init/python.py''))
        (globals (?log [''/'', ''raising''] ''/raising/init/python.py'')) =
        (Some (Raised ''RuntimeError''), Map.empty, Map.empty)"
      by (simp add: example_interpreter_def state)
    have kp: "Some (Raised ''RuntimeError'') = None \<Longrightarrow> builtins_kept Map.empty"
      by simp
    from searched [OF example_Path_raising example_glob_raising rd rn kp] show ?thesis
      by simp
  qed
  ultimately show ?thesis by simp
qed

text \<open>
  The script under \<open>/broken\<close> binds nothing. In a fresh process construction with
  it fails; after a construction under \<open>/opt/modules\<close> in the same process it
  succeeds, with the dispatcher that the earlier script left in the globals.
\<close>

theorem earlier_dispatcher_accepted:
  "example_interpreter ''pass'' Map.empty Map.empty = (None, Map.empty, Map.empty) \<and>
   fst (init example_interpreter (Some ''/broken'') None example_world) =
     Inl (EnvironmentError ''The module environment could not be initialised.'') \<and>
   fst (init example_interpreter (Some ''/broken'') None
          (snd (init example_interpreter (Some ''/opt/modules'') None example_world))) =
     Inr ((new_Module [''/'', ''broken''])
            \<lparr>init_file := Some [''/'', ''broken'', ''init'', ''python.py''],
             module := Some (Fn example_dispatcher)\<rparr>)"
proof -
  have home: "resolve_home (Some ''/broken'') w = Inr [''/'', ''broken'']" for w
    by (simp add: resolve_home_def example_Path_broken)
  have run: "fst (init example_interpreter (Some ''/broken'') None w) =
      (case fetch_module (globals w) of
         Inl e \<Rightarrow> Inl e
       | Inr obj \<Rightarrow>
           Inr ((new_Module [''/'', ''broken''])
                  \<lparr>init_file := Some [''/'', ''broken'', ''init'', ''python.py''],
                   module := Some obj\<rparr>))"
    if fs: "fs w = example_fs" for w
  proof -
    let ?w1 = "w\<lparr>fs_log := fs_log w @ [Glob [''/'', ''broken'']]\<rparr>"
    let ?w2 = "?w1\<lparr>fs_log := fs_log ?w1 @ [Open ''/broken/init/python.py'']\<rparr>"
    have found: "glob_init (fs w) [''/'', ''broken''] = [[''/'', ''broken'', ''init'', ''python.py'']]"
      by (simp add: fs example_glob_broken)
    have readable: "open_read (str_path [''/'', ''broken'', ''init'', ''python.py'']) ?w1 =
        (Inr ''pass'', ?w2)"
      by (rule example_open_broken) (simp add: fs)
    have ran: "example_interpreter ''pass'' (os_environ ?w2) (globals ?w2) =
        (None, os_environ ?w2, globals ?w2)"
      by (simp add: example_interpreter_def)
    show ?thesis
      unfolding init_by_search [where exec = example_interpreter, OF home found readable ran]
      by simp
  qed
  have "example_interpreter ''pass'' Map.empty Map.empty = (None, Map.empty, Map.empty)"
    by (simp add: example_interpreter_def)
  moreover have "fst (init example_interpreter (Some ''/broken'') None example_world) =
      Inl (EnvironmentError ''The module environment could not be initialised.'')"
    by (simp add: run example_world_def fetch_module_def)
  moreover have "fst (init example_interpreter (Some ''/broken'') None
          (snd (init example_interpreter (Some ''/opt/modules'') None example_world))) =
     Inr ((new_Module [''/'', ''broken''])
            \<lparr>init_file := Some [''/'', ''broken'', ''init'', ''python.py''],
             module := Some (Fn example_dispatcher)\<rparr>)"
    unfolding example_init_modules_full snd_conv
    by (simp add: run example_world_def fetch_module_def)
  ultimately show ?thesis by simp
qed

subsection \<open>Searching the init script\<close>

lemma set_init_file_sets:
  "set_init_file self init_file_arg w = (None, self', w') \<Longrightarrow> init_file self' \<noteq> None"
  by (auto simp: set_init_file_def Let_def split: option.splits if_splits)

text \<open>
  C4. Without an explicit init script, \<open>set_init_file\<close> searches the home. One
  candidate: it succeeds and stores that candidate. No candidate: it raises
  \<open>FileNotFoundError\<close>. More than one: it raises the \<open>ValueError\<close> whose message
  lists every candidate, and stores none of them.
\<close>

theorem init_file_search:
  "(length (glob_init (fs w) (modules_home self)) = 1 \<longrightarrow>
      set_init_file self None w =
        (None, self\<lparr>init_file := Some (glob_init (fs w) (modules_home self) ! 0)\<rparr>,
         w\<lparr>fs_log := fs_log w @ [Glob (modules_home self)]\<rparr>)) \<and>
   (length (glob_init (fs w) (modules_home self)) = 0 \<longrightarrow>
      set_init_file self None w =
        (Some (FileNotFoundError ''Modules initialisation file could not be found. ''), self,
         w\<lparr>fs_log := fs_log w @ [Glob (modules_home self)]\<rparr>)) \<and>
   (length (glob_init (fs w) (modules_home self)) > 1 \<longrightarrow>
      set_init_file self None w =
        (Some (ValueError (''Multiple possible Module initialisation files found'' @ [newline] @
                 join '', '' (map str_path (glob_init (fs w) (modules_home self))))), self,
         w\<lparr>fs_log := fs_log w @ [Glob (modules_home self)]\<rparr>))"
  by (simp add: set_init_file_def path_glob_def Let_def)

theorem init_file_search_witness:
  "set_init_file (new_Module [''/'', ''opt'', ''modules'']) None example_world =
     (None,
      (new_Module [''/'', ''opt'', ''modules''])
        \<lparr>init_file := Some [''/'', ''opt'', ''modules'', ''init'', ''python.py'']\<rparr>,
      example_world\<lparr>fs_log := [Glob [''/'', ''opt'', ''modules'']]\<rparr>) \<and>
   set_init_file (new_Module [''/'', ''empty'']) None example_world =
     (Some (FileNotFoundError ''Modules initialisation file could not be found. ''),
      new_Module [''/'', ''empty''],
      example_world\<lparr>fs_log := [Glob [''/'', ''empty'']]\<rparr>) \<and>
   set_init_file (new_Module [''/'', ''two'']) None example_world =
     (Some (ValueError (''Multiple possible Module initialisation files found'' @ [newline] @
              ''/two/init/python.py, /two/v4/init/python3.py'')),
      new_Module [''/'', ''two''],
      example_world\<lparr>fs_log := [Glob [''/'', ''two'']]\<rparr>)"
proof -
  have fs: "fs example_world = example_fs" and log: "fs_log example_world = []"
    by (simp_all add: example_world_def)
  have home: "modules_home (new_Module h) = h" for h
    by (simp add: new_Module_def)
  from init_file_search [of example_world "new_Module [''/'', ''opt'', ''modules'']"]
    init_file_search [of example_world "new_Module [''/'', ''empty'']"]
    init_file_search [of example_world "new_Module [''/'', ''two'']"]
  show ?thesis
    by (simp add: fs log home example_glob_modules example_glob_empty example_glob_two str_path_def)
qed

subsection \<open>A manual without environment section\<close>

text \<open>
  C2, as the code has it. When the text read from the manual file does not contain
  \<open>.SH ENVIRONMENT\<close> anywhere, \<open>get_environment_variables\<close> raises nothing and
  assigns the empty list to \<open>envinronment_variables\<close>, whatever the list was before;
  the only other effect is the recorded read of the file.
\<close>

theorem environment_marker_absent:
  assumes readable: "fst (open_read (man_path self man_file) w) = Inr man"
    and absent: "\<not> (\<exists>pre post. man = pre @ ''.SH ENVIRONMENT'' @ post)"
  shows "get_environment_variables self man_file w =
           (Inr (self\<lparr>envinronment_variables := []\<rparr>),
            w\<lparr>fs_log := fs_log w @ [Open (man_path self man_file)]\<rparr>)"
proof -
  have start: "str_find man ''.SH ENVIRONMENT'' = - 1"
    using absent by (simp only: str_find_absent not_False_eq_True)
  have "str_find (slice_from man 2) (newline # ''.S'') = - 1 \<or>
        (0 \<le> str_find (slice_from man 2) (newline # ''.S'') \<and>
         str_find (slice_from man 2) (newline # ''.S'') + 3 \<le> int (length (slice_from man 2)))"
    using str_find_range [of "slice_from man 2" "newline # ''.S''"] by simp
  then have "slice man (- 1) (- 1 + str_find (slice_from man 2) (newline # ''.S'') + 1) = []"
    by (rule slice_after_missing_marker)
  then have "environment_vars_section man = []"
    by (simp add: environment_vars_section_def start)
  with readable show ?thesis
    by (simp add: get_environment_variables_def environment_variable_regex_def open_read_def)
qed

theorem environment_marker_absent_witness:
  "fst (open_read (man_path example_module None) example_world) = Inr example_man \<and>
   \<not> (\<exists>pre post. example_man = pre @ ''.SH ENVIRONMENT'' @ post) \<and>
   get_environment_variables example_module None example_world =
     (Inr (example_module\<lparr>envinronment_variables := []\<rparr>),
      example_world\<lparr>fs_log := fs_log example_world @ [Open (man_path example_module None)]\<rparr>)"
proof -
  have absent: "\<not> (\<exists>pre post. example_man = pre @ ''.SH ENVIRONMENT'' @ post)"
    using example_man_no_environment str_find_absent by blast
  from environment_marker_absent [OF example_open_man absent] example_open_man absent
  show ?thesis by simp
qed

text \<open>
  The manual page of the concrete installation has no environment section; parsing
  it replaces the default list of the instance by the empty list.
\<close>

theorem environment_list_emptied:
  "str_find example_man ''.SH ENVIRONMENT'' = - 1 \<and>
   envinronment_variables example_module = default_envinronment_variables \<and>
   default_envinronment_variables \<noteq> [] \<and>
   fst (get_environment_variables example_module None example_world) =
     Inr (example_module\<lparr>envinronment_variables := []\<rparr>)"
proof -
  have "environment_vars_section example_man = []"
    by code_simp
  then have "fst (get_environment_variables example_module None example_world) =
     Inr (example_module\<lparr>envinronment_variables := []\<rparr>)"
    using example_open_man
    by (simp add: get_environment_variables_def environment_variable_regex_def)
  moreover have "envinronment_variables example_module = default_envinronment_variables"
    by (simp add: example_module_def new_Module_def)
  moreover have "default_envinronment_variables \<noteq> []"
    by (simp add: default_envinronment_variables_def)
  ultimately show ?thesis
    using example_man_no_environment by simp
qed

subsection \<open>The sub-commands section\<close>

text \<open>
  Where the header and a later \<open>.SS\<close> are both found, the text handed to the regular
  expression ends two characters before that \<open>.SS\<close>: it has the length
  \<open>k + 1\<close>, and the next \<open>.SS\<close> starts at offset \<open>k + 3\<close> from the header.
\<close>

lemma section_stops_short:
  assumes start: "0 \<le> str_find man sub_commands_marker"
    and k: "0 \<le> str_find (slice_from man (str_find man sub_commands_marker + 3)) ''.SS''"
  shows "sub_commands_section man =
           take (nat (str_find (slice_from man (str_find man sub_commands_marker + 3)) ''.SS'') + 1)
                (drop (nat (str_find man sub_commands_marker)) man)"
    and "startswith
           (drop (nat (str_find man sub_commands_marker) + 3 +
                  nat (str_find (slice_from man (str_find man sub_commands_marker + 3)) ''.SS''))
                 man) ''.SS''"
proof -
  let ?start = "str_find man sub_commands_marker"
  let ?k = "str_find (slice_from man (?start + 3)) ''.SS''"
  have len: "length sub_commands_marker = 24"
    by (simp add: sub_commands_marker_def)
  from start str_find_range [of man sub_commands_marker]
  have inside: "?start + 24 \<le> int (length man)"
    by (simp add: len)
  then have rest: "slice_from man (?start + 3) = drop (nat ?start + 3) man"
    using start by (simp add: slice_from_def slice_bound_def nat_add_distrib min_def)
  from k str_find_range [of "slice_from man (?start + 3)" "''.SS''"]
  have "?k + 3 \<le> int (length (slice_from man (?start + 3)))"
    by simp
  then have "?k + 3 \<le> int (length man) - (?start + 3)"
    using start inside by (simp add: rest)
  then show "sub_commands_section man = take (nat ?k + 1) (drop (nat ?start) man)"
    using start k
    by (simp add: sub_commands_section_def Let_def slice_def slice_bound_def min_def nat_add_distrib
        nat_diff_distrib)
  from str_find_found [OF k]
  have "startswith (drop (nat ?k) (drop (nat ?start + 3) man)) ''.SS''"
    by (simp only: rest)
  then show "startswith (drop (nat ?start + 3 + nat ?k) man) ''.SS''"
    by (simp only: drop_drop add.commute)
qed

text \<open>
  C9. On the manual page whose sub-commands section holds exactly the entries \<open>A\<close>
  and \<open>B-C\<close>, directly followed by the next \<open>.SS\<close> header, \<open>get_sub_commands\<close> stores
  \<open>[A]\<close>: the last two characters of the section are cut off, and with them the end
  of the last entry. With a line of description after each entry the result is
  \<open>[A, B-C]\<close>.
\<close>

theorem last_entry_lost:
  "fst (get_sub_commands example_module None example_world) =
     Inr (example_module\<lparr>sub_commands := [''A'']\<rparr>) \<and>
   fst (get_sub_commands example_module (Some ''/described.1'') example_world) =
     Inr (example_module\<lparr>sub_commands := [''A'', ''B-C'']\<rparr>)"
proof -
  have tight: "findall sub_command_regex (sub_commands_section example_man) = [''A'']"
    by code_simp
  have described:
    "findall sub_command_regex (sub_commands_section example_man_described) = [''A'', ''B-C'']"
    by code_simp
  from tight described example_open_man example_open_described show ?thesis
    by (simp add: get_sub_commands_def)
qed

subsection \<open>Forwarding a sub-command\<close>

text \<open>
  C1, as the code has it. For a name in \<open>sub_commands\<close> that is not an intrinsic
  member of the object, the access yields the wrapper of that name; called with any
  positional and keyword arguments, the wrapper calls the stored dispatcher once, with
  the name as first positional argument followed by the caller's arguments in order
  and the keyword arguments as given, and returns what the dispatcher returns.
\<close>

theorem sub_command_forwarded:
  assumes "name \<in> set (sub_commands self)"
    and "\<not> intrinsic inherited self name"
    and "module self = Some (Fn d)"
  shows "getattribute inherited self name = Inr (Function (wrapper self name)) \<and>
         wrapper self name args kw w =
           (fst (d (PStr name # args) kw (os_environ w)),
            w\<lparr>os_environ := snd (d (PStr name # args) kw (os_environ w)),
              calls := calls w @ [(PStr name # args, kw)]\<rparr>)"
  using assms by (simp add: getattribute_def getattr_def wrapper_def invoke_def)

theorem sub_command_forwarded_witness:
  "''load'' \<in> set (sub_commands example_module) \<and>
   \<not> intrinsic [''__class__'', ''__dict__''] example_module ''load'' \<and>
   module example_module = Some (Fn example_dispatcher) \<and>
   getattribute [''__class__'', ''__dict__''] example_module ''load'' =
     Inr (Function (wrapper example_module ''load'')) \<and>
   wrapper example_module ''load'' [PStr ''gcc''] [(''force'', PBool True)] example_world =
     (Inr (PList [PStr ''load'', PStr ''gcc'']),
      example_world\<lparr>os_environ := [''LOADEDMODULES'' \<mapsto> ''gcc''],
        calls := [([PStr ''load'', PStr ''gcc''], [(''force'', PBool True)])]\<rparr>)"
proof -
  have a: "''load'' \<in> set (sub_commands example_module)"
    by (simp add: example_module_def new_Module_def default_sub_commands_def)
  have b: "\<not> intrinsic [''__class__'', ''__dict__''] example_module ''load''"
    by (simp add: intrinsic_def class_members_def)
  have c: "module example_module = Some (Fn example_dispatcher)"
    by (simp add: example_module_def)
  from sub_command_forwarded [OF a b c, of "[PStr ''gcc'']" "[(''force'', PBool True)]" example_world]
    a b c
  show ?thesis
    by (simp add: example_dispatcher_def example_world_def)
qed

text \<open>
  A name in \<open>sub_commands\<close> that is an intrinsic member is not forwarded. Parsing the
  manual page \<open>/odd.1\<close> makes \<open>module\<close> a sub-command; the access \<open>self.module\<close>
  still finds the attribute that \<open>__init__\<close> assigned, the dispatcher itself, and
  calling it with \<open>gcc\<close> calls the dispatcher with \<open>gcc\<close> alone.
\<close>

theorem stored_dispatcher_shadows_sub_command:
  "fst (get_sub_commands example_module (Some ''/odd.1'') example_world) =
     Inr (example_module\<lparr>sub_commands := [''module'']\<rparr>) \<and>
   ''module'' \<in> set (sub_commands (example_module\<lparr>sub_commands := [''module'']\<rparr>)) \<and>
   (case getattribute [] (example_module\<lparr>sub_commands := [''module'']\<rparr>) ''module'' of
      Inr (Function f) \<Rightarrow>
        calls (snd (f [PStr ''gcc''] [] example_world)) = [([PStr ''gcc''], [])] \<and>
        fst (f [PStr ''gcc''] [] example_world) = Inr (PList [PStr ''gcc''])
    | _ \<Rightarrow> False)"
proof -
  have odd: "findall sub_command_regex (sub_commands_section example_man_odd) = [''module'']"
    by code_simp
  from odd example_open_odd have parsed: "fst (get_sub_commands example_module (Some ''/odd.1'') example_world) =
     Inr (example_module\<lparr>sub_commands := [''module'']\<rparr>)"
    by (simp add: get_sub_commands_def)
  have "getattribute [] (example_module\<lparr>sub_commands := [''module'']\<rparr>) ''module'' =
          Inr (Function (invoke example_dispatcher))"
    by (simp add: getattribute_def intrinsic_def example_module_def)
  with parsed show ?thesis
    by (simp add: invoke_def example_dispatcher_def example_world_def)
qed

subsection \<open>The home directory\<close>

lemma glob_init_needs_home: "glob_init root home \<noteq> [] \<Longrightarrow> resolve root home \<noteq> None"
  by (cases "resolve root home") (simp_all add: glob_init_def)

lemma set_init_file_keeps_home:
  "modules_home (fst (snd (set_init_file self init_file_arg w))) = modules_home self"
  by (simp add: set_init_file_def Let_def split: option.split)

lemma bootstrap_keeps_home:
  "fst (bootstrap exec self w) = Inr m \<Longrightarrow> modules_home m = modules_home self"
  by (auto simp: bootstrap_def Let_def split: option.splits sum.splits)

lemma get_sub_commands_keeps_home:
  "fst (get_sub_commands self man_file w) = Inr m \<Longrightarrow> modules_home m = modules_home self"
  by (auto simp: get_sub_commands_def split: sum.splits)

lemma get_environment_variables_keeps_home:
  "fst (get_environment_variables self man_file w) = Inr m \<Longrightarrow> modules_home m = modules_home self"
  by (auto simp: get_environment_variables_def split: sum.splits)

lemma parse_man_file_keeps_home:
  assumes "fst (parse_man_file self man_file w) = Inr m"
  shows "modules_home m = modules_home self"
proof (cases "get_sub_commands self man_file w")
  case (Pair r w1)
  show ?thesis
  proof (cases r)
    case (Inl e)
    with Pair assms show ?thesis
      by (simp add: parse_man_file_def)
  next
    case (Inr self1)
    with Pair assms have "fst (get_environment_variables self1 man_file w1) = Inr m"
      by (simp add: parse_man_file_def)
    then have "modules_home m = modules_home self1"
      by (rule get_environment_variables_keeps_home)
    moreover from Pair Inr have "modules_home self1 = modules_home self"
      using get_sub_commands_keeps_home [of self man_file w self1] by simp
    ultimately show ?thesis by simp
  qed
qed

lemma bootstrap_log:
  assumes "fst (bootstrap exec self w) = Inr m"
    and "init_file self = Some p"
  shows "fs_log (snd (bootstrap exec self w)) = fs_log w @ [Open (str_path p)]"
  using assms
  by (auto simp: bootstrap_def open_read_def Let_def split: option.splits sum.splits if_splits)

text \<open>
  C3, as the code has it. After a successful construction \<open>modules_home\<close> is the
  path made from the home argument, or from the value of \<open>MODULESHOME\<close> when there
  is no home argument. When no init script was given the path exists, since the
  search below it found the script. With an explicit init script the home is not
  looked at: the only filesystem accesses of the construction are the check and the
  read of that script. None of \<open>set_init_file\<close>, \<open>get_sub_commands\<close>,
  \<open>get_environment_variables\<close> and \<open>parse_man_file\<close> changes \<open>modules_home\<close>.
\<close>

theorem home_stored_and_kept:
  assumes built: "fst (init exec home init_file_arg w) = Inr m"
  shows "(\<forall>h. home = Some h \<longrightarrow> modules_home m = Path h) \<and>
         (home = None \<longrightarrow>
            (\<exists>h. os_environ w ''MODULESHOME'' = Some h \<and> modules_home m = Path h)) \<and>
         (init_file_arg = None \<longrightarrow> resolve (fs w) (modules_home m) \<noteq> None) \<and>
         (\<forall>f. init_file_arg = Some f \<longrightarrow>
               fs_log (snd (init exec home init_file_arg w)) =
                 fs_log w @ [Exists (Path f), Open (str_path (Path f))]) \<and>
         modules_home (fst (snd (set_init_file m another_init_file w'))) = modules_home m \<and>
         (\<forall>m'. fst (get_sub_commands m man_file w') = Inr m' \<longrightarrow> modules_home m' = modules_home m) \<and>
         (\<forall>m'. fst (get_environment_variables m man_file w') = Inr m' \<longrightarrow>
               modules_home m' = modules_home m) \<and>
         (\<forall>m'. fst (parse_man_file m man_file w') = Inr m' \<longrightarrow> modules_home m' = modules_home m)"
proof -
  from built obtain hp where hp: "resolve_home home w = Inr hp"
    by (cases "resolve_home home w") (simp_all add: init_def)
  obtain err self w1 where found: "set_init_file (new_Module hp) init_file_arg w = (err, self, w1)"
    by (cases "set_init_file (new_Module hp) init_file_arg w") auto
  from built hp found have ok: "err = None" and boot: "fst (bootstrap exec self w1) = Inr m"
    by (cases err; simp add: init_def)+
  from hp found ok have whole: "init exec home init_file_arg w = bootstrap exec self w1"
    by (simp add: init_def)
  have "modules_home self = hp"
    using set_init_file_keeps_home [of "new_Module hp" init_file_arg w] found
    by (simp add: new_Module_def)
  with bootstrap_keeps_home [OF boot] have stored: "modules_home m = hp"
    by simp
  have given: "modules_home m = Path h" if "home = Some h" for h
    using that hp stored by (simp add: resolve_home_def)
  have from_environment: "\<exists>h. os_environ w ''MODULESHOME'' = Some h \<and> modules_home m = Path h"
    if "home = None"
    using that hp stored by (auto simp: resolve_home_def split: option.splits)
  have home_there: "resolve (fs w) (modules_home m) \<noteq> None" if "init_file_arg = None"
  proof -
    from that found ok have "glob_init (fs w) hp \<noteq> []"
      by (auto simp: set_init_file_def path_glob_def Let_def new_Module_def split: if_splits)
    then show ?thesis
      unfolding stored by (rule glob_init_needs_home)
  qed
  have script_only: "fs_log (snd (init exec home init_file_arg w)) =
      fs_log w @ [Exists (Path f), Open (str_path (Path f))]"
    if "init_file_arg = Some f" for f
  proof -
    from that found have "init_file self = Some (Path f)"
      and "fs_log w1 = fs_log w @ [Exists (Path f)]"
      by (auto simp: set_init_file_def path_exists_def split: if_splits)
    with bootstrap_log [OF boot] show ?thesis
      by (simp add: whole)
  qed
  from given from_environment home_there script_only show ?thesis
    using set_init_file_keeps_home get_sub_commands_keeps_home
      get_environment_variables_keeps_home parse_man_file_keeps_home
    by auto
qed

lemma example_init_from_environment:
  "fst (init example_interpreter None None
          (example_world\<lparr>os_environ := [''MODULESHOME'' \<mapsto> ''/opt/modules'']\<rparr>)) =
     Inr example_module"
proof -
  let ?w = "example_world\<lparr>os_environ := [''MODULESHOME'' \<mapsto> ''/opt/modules'']\<rparr>"
  let ?w1 = "?w\<lparr>fs_log := fs_log ?w @ [Glob [''/'', ''opt'', ''modules'']]\<rparr>"
  let ?w2 = "?w1\<lparr>fs_log := fs_log ?w1 @ [Open ''/opt/modules/init/python.py'']\<rparr>"
  have home: "resolve_home None ?w = Inr [''/'', ''opt'', ''modules'']"
    by (simp add: resolve_home_def example_Path_modules)
  have found: "glob_init (fs ?w) [''/'', ''opt'', ''modules''] =
      [[''/'', ''opt'', ''modules'', ''init'', ''python.py'']]"
    by (simp add: example_world_def example_glob_modules)
  have readable: "open_read (str_path [''/'', ''opt'', ''modules'', ''init'', ''python.py'']) ?w1 =
      (Inr ''def module'', ?w2)"
    by (rule example_open_modules) (simp add: example_world_def)
  have ran: "example_interpreter ''def module'' (os_environ ?w2) (globals ?w2) =
      (None, os_environ ?w2, [''module'' \<mapsto> Fn example_dispatcher])"
    by (simp add: example_interpreter_def example_world_def)
  show ?thesis
    unfolding init_by_search [where exec = example_interpreter, OF home found readable ran]
    by (simp add: fetch_module_def example_module_def)
qed

lemma example_init_with_script:
  "init example_interpreter (Some h) (Some ''/init.py'') example_world =
     (Inr ((new_Module (Path h))
             \<lparr>init_file := Some [''/'', ''init.py''], module := Some (Fn example_dispatcher)\<rparr>),
      example_world
        \<lparr>globals := [''module'' \<mapsto> Fn example_dispatcher],
         fs_log := [Exists [''/'', ''init.py''], Open ''/init.py'']\<rparr>)"
proof -
  have script: "Path ''/init.py'' = [''/'', ''init.py'']"
    by code_simp
  let ?w1 = "example_world\<lparr>fs_log := fs_log example_world @ [Exists (Path ''/init.py'')]\<rparr>"
  let ?w2 = "?w1\<lparr>fs_log := fs_log ?w1 @ [Open ''/init.py'']\<rparr>"
  have home: "resolve_home (Some h) example_world = Inr (Path h)"
    by (simp add: resolve_home_def)
  have "resolve example_fs (Path ''/init.py'') \<noteq> None"
    by code_simp
  then have there: "resolve (fs example_world) (Path ''/init.py'') \<noteq> None"
    by (simp add: example_world_def)
  have readable: "open_read (str_path (Path ''/init.py'')) ?w1 = (Inr ''def module'', ?w2)"
    unfolding script by (rule example_open_init_py) (simp add: example_world_def)
  have ran: "example_interpreter ''def module'' (os_environ ?w2) (globals ?w2) =
      (None, Map.empty, [''module'' \<mapsto> Fn example_dispatcher])"
    by (simp add: example_interpreter_def example_world_def)
  show ?thesis
    unfolding init_by_script [where exec = example_interpreter, OF home there readable ran]
    by (simp add: fetch_module_def script example_world_def)
qed

theorem home_stored_and_kept_witness:
  "fst (init example_interpreter (Some ''/opt/modules'') None example_world) = Inr example_module \<and>
   modules_home example_module = Path ''/opt/modules'' \<and>
   resolve (fs example_world) (modules_home example_module) \<noteq> None \<and>
   fst (init example_interpreter None None
          (example_world\<lparr>os_environ := [''MODULESHOME'' \<mapsto> ''/opt/modules'']\<rparr>)) =
     Inr example_module \<and>
   fs_log (snd (init example_interpreter (Some ''/opt/modules'') (Some ''/init.py'') example_world)) =
     [Exists (Path ''/init.py''), Open (str_path (Path ''/init.py''))] \<and>
   modules_home (fst (snd (set_init_file example_module (Some ''/init.py'') example_world))) =
     modules_home example_module \<and>
   fst (get_sub_commands example_module None example_world) =
     Inr (example_module\<lparr>sub_commands := [''A'']\<rparr>) \<and>
   modules_home (example_module\<lparr>sub_commands := [''A'']\<rparr>) = modules_home example_module"
proof -
  let ?w = "example_world\<lparr>os_environ := [''MODULESHOME'' \<mapsto> ''/opt/modules'']\<rparr>"
  have parsed: "fst (get_sub_commands example_module None example_world) =
     Inr (example_module\<lparr>sub_commands := [''A'']\<rparr>)"
  proof -
    have "findall sub_command_regex (sub_commands_section example_man) = [''A'']"
      by code_simp
    with example_open_man show ?thesis
      by (simp add: get_sub_commands_def)
  qed
  have var: "os_environ ?w ''MODULESHOME'' = Some ''/opt/modules''"
    by simp
  have scripted: "fst (init example_interpreter (Some ''/opt/modules'') (Some ''/init.py'')
      example_world) =
      Inr ((new_Module (Path ''/opt/modules''))
             \<lparr>init_file := Some [''/'', ''init.py''], module := Some (Fn example_dispatcher)\<rparr>)"
    by (simp add: example_init_with_script)
  have empty: "fs_log example_world = []"
    by (simp add: example_world_def)
  from home_stored_and_kept [OF example_init_modules, of "Some ''/init.py''" example_world None]
    home_stored_and_kept [OF example_init_from_environment] var
    home_stored_and_kept [OF scripted]
    example_init_modules example_init_from_environment parsed empty
  show ?thesis by simp
qed

text \<open>
  With an explicit init script, construction succeeds for a home that does not exist.
\<close>

theorem home_not_validated:
  "fst (init example_interpreter (Some ''/nowhere'') (Some ''/init.py'') example_world) =
     Inr ((new_Module [''/'', ''nowhere''])
            \<lparr>init_file := Some [''/'', ''init.py''], module := Some (Fn example_dispatcher)\<rparr>) \<and>
   resolve (fs example_world) [''/'', ''nowhere''] = None"
proof -
  have home: "Path ''/nowhere'' = [''/'', ''nowhere'']"
    by code_simp
  have missing: "resolve example_fs [''/'', ''nowhere''] = None"
    by code_simp
  show ?thesis
    unfolding example_init_with_script
    by (simp add: home missing example_world_def)
qed

end
